theory Spec2Isabelle
  imports Complex_Main "HOL-Library.AList" "HOL-Library.Sublist"
begin

section \<open>JSON values and the JavaScript operations the server applies to them\<close>

text \<open>
  The server of \<^verbatim>\<open>src/backend/server.js\<close> keeps two JSON documents on disk and answers
  HTTP requests whose bodies are JSON. Every value it handles is therefore a JSON value.
  Numbers are modelled as exact rationals (the rounding of IEEE doubles is outside the
  model), strings as lists of 8-bit characters. An object is the list of its own
  properties in insertion order; reading a missing property gives \<open>None\<close>, which stands
  for JavaScript's \<^verbatim>\<open>undefined\<close>.
\<close>

datatype json =
    JNull
  | JBool bool
  | JNum rat
  | JStr string
  | JArr "json list"
  | JObj "(string \<times> json) list"

type_synonym obj = "(string \<times> json) list"

text \<open>Errors a handler's \<^verbatim>\<open>try\<close> block can catch.\<close>

datatype js_error = TypeError | NetworkError | SyntaxError | Error string

text \<open>What the call \<^verbatim>\<open>fetch('http://localhost:11434/api/chat', ...)\<close> can come to.\<close>

datatype ollama_result =
    FetchFailed
  | NotOk
  | BodyNotJson
  | Reply json

text \<open>
  The environment of one request. It holds what the handlers take from the JavaScript
  runtime and from the outside world and what this repository does not define:
  the successive readings of the system clock (milliseconds since the epoch; reading
  number \<open>k\<close> is the \<open>k\<close>-th \<^verbatim>\<open>new Date()\<close> or \<^verbatim>\<open>Date.now()\<close> of the request), the
  runtime's conversions of strings, arrays and objects to dates, numbers and strings,
  \<^verbatim>\<open>Date.prototype.toISOString\<close>, \<^verbatim>\<open>Intl.NumberFormat\<close>, the message text of errors
  raised by the runtime, the inference service, and whether the file system reads and
  writes succeed.
\<close>

record env =
  clock :: "nat \<Rightarrow> int"
  date_parse :: "json \<Rightarrow> int option"
  to_number :: "json \<Rightarrow> rat option"
  to_string :: "json \<Rightarrow> string"
  iso_string :: "int \<Rightarrow> string"
  format_inr :: "json \<Rightarrow> string"
  engine_message :: "js_error \<Rightarrow> string"
  ollama :: "string \<Rightarrow> json option \<Rightarrow> ollama_result"
  read_ok :: bool
  write_ok :: bool

text \<open>Truthiness: what \<^verbatim>\<open>!v\<close>, \<^verbatim>\<open>v || d\<close> and \<^verbatim>\<open>if (v)\<close> test.\<close>

fun truthy :: "json option \<Rightarrow> bool" where
  "truthy None = False"
| "truthy (Some JNull) = False"
| "truthy (Some (JBool b)) = b"
| "truthy (Some (JNum r)) = (r \<noteq> 0)"
| "truthy (Some (JStr s)) = (s \<noteq> [])"
| "truthy (Some (JArr xs)) = True"
| "truthy (Some (JObj kvs)) = True"

text \<open>\<^verbatim>\<open>a || d\<close> where \<open>d\<close> is a JSON value.\<close>

fun jsOr :: "json option \<Rightarrow> json \<Rightarrow> json" where
  "jsOr None d = d"
| "jsOr (Some v) d = (if truthy (Some v) then v else d)"

text \<open>
  An object literal as it is serialised by \<^verbatim>\<open>JSON.stringify\<close>: a property whose value
  is \<^verbatim>\<open>undefined\<close> is left out.
\<close>

fun literal :: "(string \<times> json option) list \<Rightarrow> obj" where
  "literal [] = []"
| "literal ((k, None) # kvs) = literal kvs"
| "literal ((k, Some v) # kvs) = (k, v) # literal kvs"


text \<open>\<^verbatim>\<open>ToNumber\<close>, with \<open>None\<close> for \<^verbatim>\<open>NaN\<close>.\<close>

fun toNumber :: "env \<Rightarrow> json option \<Rightarrow> rat option" where
  "toNumber E None = None"
| "toNumber E (Some JNull) = Some 0"
| "toNumber E (Some (JBool b)) = Some (if b then 1 else 0)"
| "toNumber E (Some (JNum r)) = Some r"
| "toNumber E (Some (JStr s)) = to_number E (JStr s)"
| "toNumber E (Some (JArr xs)) = to_number E (JArr xs)"
| "toNumber E (Some (JObj kvs)) = to_number E (JObj kvs)"

text \<open>\<^verbatim>\<open>Math.max(a, ...bs)\<close>: \<^verbatim>\<open>NaN\<close> as soon as one argument is \<^verbatim>\<open>NaN\<close>.\<close>

fun mathMax :: "rat option \<Rightarrow> rat option list \<Rightarrow> rat option" where
  "mathMax a [] = a"
| "mathMax a (b # bs) =
     mathMax (case a of None \<Rightarrow> None
              | Some x \<Rightarrow> (case b of None \<Rightarrow> None | Some y \<Rightarrow> Some (max x y))) bs"

text \<open>\<^verbatim>\<open>ToString\<close>, as a template literal applies it.\<close>

fun toStr :: "env \<Rightarrow> json option \<Rightarrow> string" where
  "toStr E None = ''undefined''"
| "toStr E (Some JNull) = ''null''"
| "toStr E (Some (JBool b)) = (if b then ''true'' else ''false'')"
| "toStr E (Some (JStr s)) = s"
| "toStr E (Some (JNum r)) = to_string E (JNum r)"
| "toStr E (Some (JArr xs)) = to_string E (JArr xs)"
| "toStr E (Some (JObj kvs)) = to_string E (JObj kvs)"

text \<open>
  The time value of \<^verbatim>\<open>new Date(v)\<close>, \<open>None\<close> for an invalid date. A number is
  clipped to the range of time values and truncated; a string (or the string an array
  or object converts to) is parsed by the runtime.
\<close>

definition truncate_rat :: "rat \<Rightarrow> int" where
  "truncate_rat r = (if 0 \<le> r then \<lfloor>r\<rfloor> else \<lceil>r\<rceil>)"

fun newDate :: "env \<Rightarrow> json option \<Rightarrow> int option" where
  "newDate E None = None"
| "newDate E (Some JNull) = Some 0"
| "newDate E (Some (JBool b)) = Some (if b then 1 else 0)"
| "newDate E (Some (JNum r)) =
     (if \<bar>r\<bar> \<le> 8640000000000000 then Some (truncate_rat r) else None)"
| "newDate E (Some (JStr s)) = date_parse E (JStr s)"
| "newDate E (Some (JArr xs)) = date_parse E (JArr xs)"
| "newDate E (Some (JObj kvs)) = date_parse E (JObj kvs)"

text \<open>\<^verbatim>\<open>String.prototype.toLowerCase\<close> on the ASCII letters, and \<^verbatim>\<open>s.includes(t)\<close>.\<close>

definition toLowerChar :: "char \<Rightarrow> char" where
  "toLowerChar c = (case c of Char b0 b1 b2 b3 b4 b5 b6 b7 \<Rightarrow>
     if 65 \<le> (of_char c :: nat) \<and> (of_char c :: nat) \<le> 90
     then Char b0 b1 b2 b3 b4 True b6 b7 else c)"

definition toLowerCase :: "string \<Rightarrow> string" where
  "toLowerCase s = map toLowerChar s"

fun str_includes :: "string \<Rightarrow> string \<Rightarrow> bool" where
  "str_includes [] t = (t = [])"
| "str_includes (x # xs) t = (prefix t (x # xs) \<or> str_includes xs t)"


section \<open>The persisted state and the helper functions\<close>

record state =
  contracts_file :: "obj list"
  chat_file :: obj

datatype response = Response nat obj

text \<open>
  \<^verbatim>\<open>readJSON\<close> gives the parsed document, or the default value (\<^verbatim>\<open>[]\<close> for the
  contracts, \<^verbatim>\<open>{}\<close> for the chat history) when the read fails; \<^verbatim>\<open>writeJSON\<close>
  replaces the document and reports whether that succeeded.
\<close>

definition readContracts :: "env \<Rightarrow> state \<Rightarrow> obj list" where
  "readContracts E st = (if read_ok E then contracts_file st else [])"

definition readChat :: "env \<Rightarrow> state \<Rightarrow> obj" where
  "readChat E st = (if read_ok E then chat_file st else [])"

definition writeContracts :: "env \<Rightarrow> obj list \<Rightarrow> state \<Rightarrow> bool \<times> state" where
  "writeContracts E d st =
     (if write_ok E then (True, st\<lparr>contracts_file := d\<rparr>) else (False, st))"

definition writeChat :: "env \<Rightarrow> obj \<Rightarrow> state \<Rightarrow> bool \<times> state" where
  "writeChat E d st =
     (if write_ok E then (True, st\<lparr>chat_file := d\<rparr>) else (False, st))"

definition msPerDay :: int where
  "msPerDay = 1000 * 60 * 60 * 24"

text \<open>
  \<^verbatim>\<open>Math.floor((endDate - today) / (1000 * 60 * 60 * 24))\<close>, the expression of
  \<^verbatim>\<open>checkContractStatus\<close> that the alerts handler repeats. \<open>None\<close> is \<^verbatim>\<open>NaN\<close>.
\<close>

definition daysRemaining :: "env \<Rightarrow> int \<Rightarrow> json option \<Rightarrow> int option" where
  "daysRemaining E today end_date =
     (case newDate E end_date of
        None \<Rightarrow> None
      | Some endDate \<Rightarrow> Some ((endDate - today) div msPerDay))"

text \<open>
  The branches of \<^verbatim>\<open>checkContractStatus\<close>. Both comparisons are false on \<^verbatim>\<open>NaN\<close>,
  which leaves the last branch.
\<close>

definition deriveStatus :: "env \<Rightarrow> int \<Rightarrow> json option \<Rightarrow> string" where
  "deriveStatus E today end_date =
     (case daysRemaining E today end_date of
        None \<Rightarrow> ''active''
      | Some d \<Rightarrow> if d < 0 then ''expired'' else if d \<le> 30 then ''expiring'' else ''active'')"

definition checkContractStatus :: "env \<Rightarrow> int \<Rightarrow> obj \<Rightarrow> obj" where
  "checkContractStatus E today contract =
     AList.update ''status'' (JStr (deriveStatus E today (map_of contract ''end_date''))) contract"

definition formatINR :: "env \<Rightarrow> json option \<Rightarrow> string" where
  "formatINR E amount =
     (case amount of
        None \<Rightarrow> ''Not specified''
      | Some a \<Rightarrow> if \<not> truthy (Some a) \<or> a = JNum 0 then ''Not specified'' else format_inr E a)"

text \<open>
  \<^verbatim>\<open>c.id === parseInt(req.params.id)\<close>. The handlers below take the result of
  \<^verbatim>\<open>parseInt\<close> as their argument: an integer, or \<open>None\<close> for \<^verbatim>\<open>NaN\<close>, which is
  equal to nothing.
\<close>

fun idEq :: "int option \<Rightarrow> obj \<Rightarrow> bool" where
  "idEq None c = False"
| "idEq (Some n) c = (map_of c ''id'' = Some (JNum (of_int n)))"

section \<open>The contract routes\<close>

text \<open>
  A handler takes the environment of the request, what the request carries (the body
  that \<^verbatim>\<open>express.json()\<close> parsed, as an object, and the parsed \<^verbatim>\<open>:id\<close>)
  and the persisted state; it returns the response and, when it writes, the new state.
\<close>

text \<open>\<^verbatim>\<open>GET /api/contracts\<close>. Nothing is written back.\<close>

definition contracts_get :: "env \<Rightarrow> state \<Rightarrow> response" where
  "contracts_get E st =
     (let contracts = readContracts E st;
          updatedContracts =
            map (\<lambda>(i, c). checkContractStatus E (clock E i) c) (enumerate 0 contracts)
      in Response 200 [(''contracts'', JArr (map JObj updatedContracts))])"

text \<open>
  The identifier of a new contract:
  \<^verbatim>\<open>contracts.length > 0 ? Math.max(...contracts.map(c => c.id)) + 1 : 1\<close>.
  A \<^verbatim>\<open>NaN\<close> is serialised as \<^verbatim>\<open>null\<close>.
\<close>

definition newId :: "env \<Rightarrow> obj list \<Rightarrow> json" where
  "newId E contracts =
     (case contracts of
        [] \<Rightarrow> JNum 1
      | c # cs \<Rightarrow>
          (case mathMax (toNumber E (map_of c ''id''))
                        (map (\<lambda>c. toNumber E (map_of c ''id'')) cs) of
             None \<Rightarrow> JNull
           | Some m \<Rightarrow> JNum (m + 1)))"

text \<open>\<^verbatim>\<open>POST /api/contracts\<close>.\<close>

definition newContract :: "env \<Rightarrow> obj \<Rightarrow> obj list \<Rightarrow> obj" where
  "newContract E body contracts =
     literal
       [(''id'', Some (newId E contracts)),
        (''title'', map_of body ''title''),
        (''company'', map_of body ''company''),
        (''client_name'', map_of body ''client_name''),
        (''contract_type'', Some (jsOr (map_of body ''contract_type'') (JStr ''individual''))),
        (''start_date'', map_of body ''start_date''),
        (''end_date'', map_of body ''end_date''),
        (''salary'', Some (jsOr (map_of body ''salary'') JNull)),
        (''notes'', Some (jsOr (map_of body ''notes'') (JStr []))),
        (''created_at'', Some (JStr (iso_string E (clock E 0)))),
        (''status'', Some (JStr ''active''))]"

definition contracts_post :: "env \<Rightarrow> obj \<Rightarrow> state \<Rightarrow> response \<times> state" where
  "contracts_post E body st =
     (if \<not> truthy (map_of body ''title'') \<or> \<not> truthy (map_of body ''company'')
         \<or> \<not> truthy (map_of body ''client_name'') \<or> \<not> truthy (map_of body ''start_date'')
         \<or> \<not> truthy (map_of body ''end_date'')
      then (Response 400 [(''error'', JStr ''Missing required fields'')], st)
      else
        (let contracts = readContracts E st;
             contractWithStatus = checkContractStatus E (clock E 1) (newContract E body contracts);
             (success, st') = writeContracts E (contracts @ [contractWithStatus]) st
         in if success
            then (Response 200
                    [(''message'', JStr ''Contract created successfully''),
                     (''contract'', JObj contractWithStatus),
                     (''success'', JBool True)], st')
            else (Response 500 [(''error'', JStr ''Failed to save contract'')], st')))"

text \<open>\<^verbatim>\<open>GET /api/contracts/:id\<close>.\<close>

definition contract_get :: "env \<Rightarrow> int option \<Rightarrow> state \<Rightarrow> response" where
  "contract_get E pid st =
     (case find (idEq pid) (readContracts E st) of
        None \<Rightarrow> Response 404 [(''error'', JStr ''Contract not found'')]
      | Some contract \<Rightarrow>
          Response 200 [(''contract'', JObj (checkContractStatus E (clock E 0) contract))])"



section \<open>Search\<close>

text \<open>
  \<^verbatim>\<open>c.f.toLowerCase().includes(searchTerm)\<close> raises a \<^verbatim>\<open>TypeError\<close> unless \<^verbatim>\<open>c.f\<close>
  is a string; \<^verbatim>\<open>||\<close> evaluates its right operand only when the left one is false.
\<close>

definition fieldIncludes :: "obj \<Rightarrow> string \<Rightarrow> string \<Rightarrow> js_error + bool" where
  "fieldIncludes c f searchTerm =
     (case map_of c f of
        Some (JStr s) \<Rightarrow> Inr (str_includes (toLowerCase s) searchTerm)
      | _ \<Rightarrow> Inl TypeError)"

fun orElse :: "js_error + bool \<Rightarrow> js_error + bool \<Rightarrow> js_error + bool" where
  "orElse (Inl e) b = Inl e"
| "orElse (Inr True) b = Inr True"
| "orElse (Inr False) b = b"

definition matches :: "string \<Rightarrow> obj \<Rightarrow> js_error + bool" where
  "matches searchTerm c =
     orElse (fieldIncludes c ''title'' searchTerm)
       (orElse (fieldIncludes c ''company'' searchTerm)
          (orElse (fieldIncludes c ''client_name'' searchTerm)
             (fieldIncludes c ''status'' searchTerm)))"

text \<open>\<^verbatim>\<open>Array.prototype.filter\<close> with a callback that may raise.\<close>

fun filterE :: "('a \<Rightarrow> js_error + bool) \<Rightarrow> 'a list \<Rightarrow> js_error + 'a list" where
  "filterE p [] = Inr []"
| "filterE p (x # xs) =
     (case p x of
        Inl e \<Rightarrow> Inl e
      | Inr b \<Rightarrow>
          (case filterE p xs of
             Inl e \<Rightarrow> Inl e
           | Inr ys \<Rightarrow> Inr (if b then x # ys else ys)))"

definition errorMessage :: "env \<Rightarrow> js_error \<Rightarrow> string" where
  "errorMessage E e = (case e of Error m \<Rightarrow> m | _ \<Rightarrow> engine_message E e)"

text \<open>\<^verbatim>\<open>POST /api/search\<close>.\<close>

definition search_post :: "env \<Rightarrow> obj \<Rightarrow> state \<Rightarrow> response" where
  "search_post E body st =
     (let contracts = readContracts E st
      in case map_of body ''query'' of
           Some (JStr q) \<Rightarrow>
             (case filterE (matches (toLowerCase q)) contracts of
                Inl e \<Rightarrow> Response 500 [(''error'', JStr (errorMessage E e))]
              | Inr results \<Rightarrow>
                  Response 200
                    [(''results'', JArr (map JObj results)),
                     (''count'', JNum (of_nat (length results)))])
         | _ \<Rightarrow> Response 500 [(''error'', JStr (errorMessage E TypeError))])"

section \<open>Alerts\<close>




section \<open>The chat routes\<close>

definition nl :: string where
  "nl = [CHR 0x0A]"

text \<open>The block the \<^verbatim>\<open>forEach\<close> of \<^verbatim>\<open>POST /api/chat\<close> adds for one contract.\<close>

definition contractBlock :: "env \<Rightarrow> obj \<Rightarrow> string" where
  "contractBlock E c =
     ''Contract ID: '' @ toStr E (map_of c ''id'') @ nl
     @ ''  - Title/Position: '' @ toStr E (map_of c ''title'') @ nl
     @ ''  - Company: '' @ toStr E (map_of c ''company'') @ nl
     @ ''  - Client Name: '' @ toStr E (map_of c ''client_name'') @ nl
     @ ''  - Contract Type: '' @ toStr E (map_of c ''contract_type'') @ nl
     @ ''  - Status: '' @ toStr E (map_of c ''status'') @ nl
     @ ''  - Start Date: '' @ toStr E (map_of c ''start_date'') @ nl
     @ ''  - End Date: '' @ toStr E (map_of c ''end_date'') @ nl
     @ ''  - Salary: '' @ formatINR E (map_of c ''salary'') @ nl
     @ (if truthy (map_of c ''notes'')
        then ''  - Notes: '' @ toStr E (map_of c ''notes'') @ nl else [])
     @ nl"

definition contractSummary :: "env \<Rightarrow> obj list \<Rightarrow> string" where
  "contractSummary E contracts =
     ''You are a helpful contract management assistant. You have access to detailed contract information including salaries.''
     @ nl @ nl
     @ ''Current contracts in system (Total: ''
     @ to_string E (JNum (of_nat (length contracts))) @ ''):'' @ nl @ nl
     @ concat (map (contractBlock E) contracts)
     @ nl @ ''Instructions:'' @ nl
     @ ''- When users ask about their salary, provide the exact amount from the contract data'' @ nl
     @ ''- Match users by their name (client_name) or position (title)'' @ nl
     @ ''- Be specific and include all relevant details like salary, dates, and status'' @ nl
     @ ''- If asked about status, mention days remaining for expiring contracts'' @ nl
     @ ''- Be conversational, friendly, and helpful'' @ nl
     @ ''- Always include salary amounts when discussing contracts'' @ nl
     @ ''- Format responses clearly with contract details'' @ nl @ nl"

text \<open>
  \<^verbatim>\<open>ollamaData.message.content\<close>: reading a property of \<^verbatim>\<open>undefined\<close> or
  \<^verbatim>\<open>null\<close> raises a \<^verbatim>\<open>TypeError\<close>; reading one that a value does not have gives
  \<^verbatim>\<open>undefined\<close>.
\<close>

definition messageContent :: "json \<Rightarrow> js_error + json option" where
  "messageContent ollamaData =
     (case ollamaData of
        JObj kvs \<Rightarrow>
          (case map_of kvs ''message'' of
             None \<Rightarrow> Inl TypeError
           | Some JNull \<Rightarrow> Inl TypeError
           | Some (JObj m) \<Rightarrow> Inr (map_of m ''content'')
           | Some _ \<Rightarrow> Inr None)
      | _ \<Rightarrow> Inl TypeError)"

text \<open>
  The chat history is indexed by a key that the client chooses:
  \<^verbatim>\<open>chatHistory[currentChatId]\<close>. Such a read looks at the object's own properties
  first and at those it inherits from \<^verbatim>\<open>Object.prototype\<close> next: for the key
  \<^verbatim>\<open>constructor\<close> it gives a function, for \<^verbatim>\<open>__proto__\<close> the prototype object
  itself. (The contract routes read properties with fixed names, none of them
  inherited, so there the own properties are all there is.)
\<close>

datatype jsval = Undefined | Own json | ProtoFunction | ProtoObject

definition objectPrototypeFunctions :: "string list" where
  "objectPrototypeFunctions =
     [''constructor'', ''__defineGetter__'', ''__defineSetter__'', ''hasOwnProperty'',
      ''__lookupGetter__'', ''__lookupSetter__'', ''isPrototypeOf'',
      ''propertyIsEnumerable'', ''toString'', ''valueOf'', ''toLocaleString'']"

definition getProp :: "obj \<Rightarrow> string \<Rightarrow> jsval" where
  "getProp ob k =
     (case map_of ob k of
        Some v \<Rightarrow> Own v
      | None \<Rightarrow>
          if k = ''__proto__'' then ProtoObject
          else if k \<in> set objectPrototypeFunctions then ProtoFunction
          else Undefined)"

fun truthyVal :: "jsval \<Rightarrow> bool" where
  "truthyVal Undefined = False"
| "truthyVal (Own v) = truthy (Some v)"
| "truthyVal ProtoFunction = True"
| "truthyVal ProtoObject = True"

definition chatError :: "env \<Rightarrow> js_error \<Rightarrow> response" where
  "chatError E e =
     Response 500
       [(''error'', JStr ''Error communicating with Ollama. Make sure Ollama is running with: ollama serve''),
        (''details'', JStr (errorMessage E e))]"

text \<open>
  Lines 340 to 359 of the server: the history is read, the session is created when
  the read under its key is falsy, the exchange is pushed, the history is written.
  \<^verbatim>\<open>push\<close> exists on arrays only. The clock is read for \<^verbatim>\<open>Date.now()\<close> only when
  the request has no \<^verbatim>\<open>chat_id\<close>.
\<close>

definition appendExchange ::
  "env \<Rightarrow> json option \<Rightarrow> json option \<Rightarrow> json option \<Rightarrow> state \<Rightarrow> response \<times> state" where
  "appendExchange E chat_id message botResponse st =
     (let chatHistory = readChat E st;
          t = (if truthy chat_id then 0 else 1);
          currentChatId = jsOr chat_id (JStr (to_string E (JNum (of_int (clock E 0)))));
          key = toStr E (Some currentChatId);
          chatHistory1 =
            (if \<not> truthyVal (getProp chatHistory key)
             then AList.update key (JArr []) chatHistory else chatHistory)
      in case getProp chatHistory1 key of
           Own (JArr exchanges) \<Rightarrow>
             (let exchange =
                    literal
                      [(''timestamp'', Some (JStr (iso_string E (clock E t)))),
                       (''user'', message),
                       (''bot'', botResponse)];
                  (success, st') =
                    writeChat E
                      (AList.update key (JArr (exchanges @ [JObj exchange])) chatHistory1) st
              in (Response 200
                    (literal
                       [(''response'', botResponse),
                        (''chat_id'', Some currentChatId),
                        (''timestamp'', Some (JStr (iso_string E (clock E (t + 1)))))]), st'))
         | _ \<Rightarrow> (chatError E TypeError, st))"

text \<open>\<^verbatim>\<open>POST /api/chat\<close>.\<close>

definition chat_post :: "env \<Rightarrow> obj \<Rightarrow> state \<Rightarrow> response \<times> state" where
  "chat_post E body st =
     (let message = map_of body ''message'';
          chat_id = map_of body ''chat_id'';
          contracts = readContracts E st
      in case ollama E (contractSummary E contracts) message of
           FetchFailed \<Rightarrow> (chatError E NetworkError, st)
         | NotOk \<Rightarrow>
             (chatError E
                (Error ''Ollama API error. Make sure Ollama is running with: ollama serve''), st)
         | BodyNotJson \<Rightarrow> (chatError E SyntaxError, st)
         | Reply ollamaData \<Rightarrow>
             (case messageContent ollamaData of
                Inl e \<Rightarrow> (chatError E e, st)
              | Inr botResponse \<Rightarrow> appendExchange E chat_id message botResponse st))"

text \<open>
  \<^verbatim>\<open>GET /api/chat/history/:chat_id\<close>. \<^verbatim>\<open>res.json\<close> leaves a function-valued
  property out and writes the prototype object as \<^verbatim>\<open>{}\<close>.
\<close>

definition history_get :: "env \<Rightarrow> string \<Rightarrow> state \<Rightarrow> response" where
  "history_get E chat_id st =
     (case getProp (readChat E st) chat_id of
        Undefined \<Rightarrow> Response 404 [(''error'', JStr ''Chat history not found'')]
      | Own history \<Rightarrow>
          if truthy (Some history)
          then Response 200 [(''chat_id'', JStr chat_id), (''messages'', history)]
          else Response 404 [(''error'', JStr ''Chat history not found'')]
      | ProtoFunction \<Rightarrow> Response 200 [(''chat_id'', JStr chat_id)]
      | ProtoObject \<Rightarrow> Response 200 [(''chat_id'', JStr chat_id), (''messages'', JObj [])])"

section \<open>A concrete environment and concrete stores\<close>

text \<open>
  The environment of a request made on 10 March 2024 at 12:00:00 UTC, that is at time
  value 1710072000000. Its tables give what the runtime answers on the values the
  examples below meet: a date-only string denotes midnight UTC of that day, a string
  that is no date has no time value, the rupee sign is its three UTF-8 bytes, and the
  \<^verbatim>\<open>TypeError\<close> the examples meet is the one raised by calling \<^verbatim>\<open>push\<close> on a
  value that has none. The inference service is running and gives a fixed reply.
\<close>

definition noon :: int where
  "noon = 1710072000000"

definition exampleEnv :: env where
  "exampleEnv =
     \<lparr>clock = (\<lambda>k. 1710072000000),
      date_parse =
        map_of
          [(JStr ''2024-03-09'', 1709942400000),
           (JStr ''2024-03-10'', 1710028800000),
           (JStr ''2024-04-09'', 1712620800000),
           (JStr ''2024-04-10'', 1712707200000),
           (JStr ''2025-05-02'', 1746144000000),
           (JStr ''2024-03-09T12:00:00.000Z'', 1709985600000),
           (JStr ''2024-03-10T12:00:00.000Z'', 1710072000000),
           (JStr ''2024-04-09T12:00:00.000Z'', 1712664000000),
           (JStr ''2024-04-10T12:00:00.000Z'', 1712750400000)],
      to_number = (\<lambda>v. None),
      to_string =
        (\<lambda>v. if v = JNum 0 then ''0'' else if v = JNum 1 then ''1''
             else if v = JNum 2 then ''2'' else if v = JNum 3 then ''3''
             else if v = JNum 1710072000000 then ''1710072000000''
             else ''[object Object]''),
      iso_string = (\<lambda>t. ''2024-03-10T12:00:00.000Z''),
      format_inr =
        (\<lambda>v. if v = JNum 500000 then [CHR 0xE2, CHR 0x82, CHR 0xB9] @ ''5,00,000''
             else [CHR 0xE2, CHR 0x82, CHR 0xB9] @ ''NaN''),
      engine_message =
        (\<lambda>e. case e of
               TypeError \<Rightarrow> ''chatHistory[currentChatId].push is not a function''
             | NetworkError \<Rightarrow> ''fetch failed''
             | SyntaxError \<Rightarrow> ''Unexpected end of JSON input''
             | Error m \<Rightarrow> m),
      ollama =
        (\<lambda>summary message.
           Reply (JObj [(''message'',
                         JObj [(''role'', JStr ''assistant''),
                               (''content'', JStr ''You have 1 contract.'')])])),
      read_ok = True,
      write_ok = True\<rparr>"

text \<open>The day a time value falls on, counted from the epoch in UTC.\<close>

definition utcDay :: "int \<Rightarrow> int" where
  "utcDay t = t div msPerDay"

text \<open>
  A contract as the server stored it when it was created some time before its end
  date, and the store that holds it.
\<close>

definition qaContract :: obj where
  "qaContract =
     [(''id'', JNum 1),
      (''title'', JStr ''Quality Assurance''),
      (''company'', JStr ''VVRN Technologies''),
      (''client_name'', JStr ''John rohan''),
      (''contract_type'', JStr ''individual''),
      (''start_date'', JStr ''2023-03-05''),
      (''end_date'', JStr ''2024-03-09''),
      (''salary'', JNum 500000),
      (''notes'', JStr []),
      (''created_at'', JStr ''2023-03-01T09:00:00.000Z''),
      (''status'', JStr ''active'')]"

definition devContract :: obj where
  "devContract =
     [(''id'', JNum 2),
      (''title'', JStr ''Developer''),
      (''company'', JStr ''Acme''),
      (''client_name'', JStr ''Asha''),
      (''contract_type'', JStr ''client''),
      (''start_date'', JStr ''2024-01-01''),
      (''end_date'', JStr ''2025-05-02''),
      (''salary'', JNull),
      (''notes'', JStr []),
      (''created_at'', JStr ''2024-01-01T09:00:00.000Z''),
      (''status'', JStr ''active'')]"

definition exampleState :: state where
  "exampleState = \<lparr>contracts_file = [qaContract, devContract], chat_file = []\<rparr>"




text \<open>The example environment with the inference service not running.\<close>

definition offlineEnv :: env where
  "offlineEnv = exampleEnv\<lparr>ollama := (\<lambda>summary message. FetchFailed)\<rparr>"

section \<open>The specification's wording of search and alerts\<close>





section \<open>Properties of the status derivation\<close>

lemma status_key [simp]:
  "map_of (checkContractStatus E today c) ''status'' =
     Some (JStr (deriveStatus E today (map_of c ''end_date'')))"
  by (simp add: checkContractStatus_def update_conv')

lemma other_keys:
  "k \<noteq> ''status'' \<Longrightarrow> map_of (checkContractStatus E today c) k = map_of c k"
  by (simp add: checkContractStatus_def update_conv')

text \<open>
  Claim C1, as amended. For every contract whose \<^verbatim>\<open>end_date\<close> is a valid date, with
  time value \<open>e\<close>, and every moment \<open>now\<close>, \<^verbatim>\<open>checkContractStatus\<close> computes
  \<open>daysRemaining = floor ((e - now) / 1 day)\<close> and sets the status to \<^verbatim>\<open>expired\<close>
  iff \<open>daysRemaining < 0\<close>, to \<^verbatim>\<open>expiring\<close> iff \<open>0 \<le> daysRemaining \<le> 30\<close> and to
  \<^verbatim>\<open>active\<close> iff \<open>daysRemaining > 30\<close>. In particular a contract that ends at
  the very instant \<open>now\<close> is \<^verbatim>\<open>expiring\<close>, one that ended exactly one day before
  \<open>now\<close> is \<^verbatim>\<open>expired\<close>, one that ends exactly 30 days after \<open>now\<close> is
  \<^verbatim>\<open>expiring\<close>, and one that ends exactly 31 days after \<open>now\<close> is \<^verbatim>\<open>active\<close>.
\<close>

theorem checkContractStatus_thresholds:
  assumes "newDate E (map_of c ''end_date'') = Some e"
  shows "daysRemaining E now (map_of c ''end_date'') = Some ((e - now) div msPerDay)
    \<and> (map_of (checkContractStatus E now c) ''status'' = Some (JStr ''expired'')
         \<longleftrightarrow> (e - now) div msPerDay < 0)
    \<and> (map_of (checkContractStatus E now c) ''status'' = Some (JStr ''expiring'')
         \<longleftrightarrow> 0 \<le> (e - now) div msPerDay \<and> (e - now) div msPerDay \<le> 30)
    \<and> (map_of (checkContractStatus E now c) ''status'' = Some (JStr ''active'')
         \<longleftrightarrow> 30 < (e - now) div msPerDay)
    \<and> (e = now \<longrightarrow>
          map_of (checkContractStatus E now c) ''status'' = Some (JStr ''expiring''))
    \<and> (e = now - msPerDay \<longrightarrow>
          map_of (checkContractStatus E now c) ''status'' = Some (JStr ''expired''))
    \<and> (e = now + 30 * msPerDay \<longrightarrow>
          map_of (checkContractStatus E now c) ''status'' = Some (JStr ''expiring''))
    \<and> (e = now + 31 * msPerDay \<longrightarrow>
          map_of (checkContractStatus E now c) ''status'' = Some (JStr ''active''))"
proof -
  have d: "daysRemaining E now (map_of c ''end_date'') = Some ((e - now) div msPerDay)"
    using assms by (simp add: daysRemaining_def)
  have s: "deriveStatus E now (map_of c ''end_date'') =
             (if (e - now) div msPerDay < 0 then ''expired''
              else if (e - now) div msPerDay \<le> 30 then ''expiring'' else ''active'')"
    by (simp add: deriveStatus_def d)
  have b0: "(now - now) div msPerDay = 0" by simp
  have b1: "(now - msPerDay - now) div msPerDay = - 1" by (simp add: msPerDay_def)
  have b30: "(now + 30 * msPerDay - now) div msPerDay = 30" by (simp add: msPerDay_def)
  have b31: "(now + 31 * msPerDay - now) div msPerDay = 31" by (simp add: msPerDay_def)
  show ?thesis
    using b0 b1 b30 b31 by (auto simp add: d s)
qed

text \<open>
  The theorem at four contracts whose end dates are date-times, on 10 March 2024 at
  noon: ending now, one day ago, in 30 days and in 31 days.
\<close>

theorem checkContractStatus_thresholds_witness:
  "map_of (checkContractStatus exampleEnv noon
             [(''end_date'', JStr ''2024-03-10T12:00:00.000Z'')]) ''status''
     = Some (JStr ''expiring'')
   \<and> map_of (checkContractStatus exampleEnv noon
               [(''end_date'', JStr ''2024-03-09T12:00:00.000Z'')]) ''status''
     = Some (JStr ''expired'')
   \<and> map_of (checkContractStatus exampleEnv noon
               [(''end_date'', JStr ''2024-04-09T12:00:00.000Z'')]) ''status''
     = Some (JStr ''expiring'')
   \<and> map_of (checkContractStatus exampleEnv noon
               [(''end_date'', JStr ''2024-04-10T12:00:00.000Z'')]) ''status''
     = Some (JStr ''active'')"
proof -
  have e0: "newDate exampleEnv
              (map_of [(''end_date'', JStr ''2024-03-10T12:00:00.000Z'')] ''end_date'')
            = Some noon"
    by (simp add: exampleEnv_def noon_def)
  have e1: "newDate exampleEnv
              (map_of [(''end_date'', JStr ''2024-03-09T12:00:00.000Z'')] ''end_date'')
            = Some (noon - msPerDay)"
    by (simp add: exampleEnv_def noon_def msPerDay_def)
  have e30: "newDate exampleEnv
               (map_of [(''end_date'', JStr ''2024-04-09T12:00:00.000Z'')] ''end_date'')
             = Some (noon + 30 * msPerDay)"
    by (simp add: exampleEnv_def noon_def msPerDay_def)
  have e31: "newDate exampleEnv
               (map_of [(''end_date'', JStr ''2024-04-10T12:00:00.000Z'')] ''end_date'')
             = Some (noon + 31 * msPerDay)"
    by (simp add: exampleEnv_def noon_def msPerDay_def)
  have s0: "map_of (checkContractStatus exampleEnv noon
                      [(''end_date'', JStr ''2024-03-10T12:00:00.000Z'')]) ''status''
            = Some (JStr ''expiring'')"
    using checkContractStatus_thresholds [OF e0, of noon] by simp
  have s1: "map_of (checkContractStatus exampleEnv noon
                      [(''end_date'', JStr ''2024-03-09T12:00:00.000Z'')]) ''status''
            = Some (JStr ''expired'')"
    using checkContractStatus_thresholds [OF e1, of noon] by simp
  have s30: "map_of (checkContractStatus exampleEnv noon
                       [(''end_date'', JStr ''2024-04-09T12:00:00.000Z'')]) ''status''
             = Some (JStr ''expiring'')"
    using checkContractStatus_thresholds [OF e30, of noon] by simp
  have s31: "map_of (checkContractStatus exampleEnv noon
                       [(''end_date'', JStr ''2024-04-10T12:00:00.000Z'')]) ''status''
             = Some (JStr ''active'')"
    using checkContractStatus_thresholds [OF e31, of noon] by simp
  show ?thesis
    using s0 s1 s30 s31 by (intro conjI)
qed

text \<open>
  Claim C1 as it is stated fails where ``today'' is the calendar day. The end date
  \<^verbatim>\<open>2024-03-10\<close> denotes midnight UTC of 10 March; at noon of that same day the
  difference is minus half a day, whose floor is \<open>-1\<close>: a contract that ends today is
  \<^verbatim>\<open>expired\<close>. Likewise the end date \<^verbatim>\<open>2024-04-10\<close>, 31 days after today, is
  30.5 days away, and the contract is \<^verbatim>\<open>expiring\<close>, not \<^verbatim>\<open>active\<close>. And an
  end date that is no date, here \<^verbatim>\<open>next month\<close>, has no number of days remaining
  and yet the status \<^verbatim>\<open>active\<close>.
\<close>

theorem ends_today_counterexample:
  "utcDay 1710028800000 = utcDay noon
   \<and> newDate exampleEnv (Some (JStr ''2024-03-10'')) = Some 1710028800000
   \<and> map_of (checkContractStatus exampleEnv noon [(''end_date'', JStr ''2024-03-10'')]) ''status''
       = Some (JStr ''expired'')
   \<and> utcDay 1712707200000 = utcDay noon + 31
   \<and> newDate exampleEnv (Some (JStr ''2024-04-10'')) = Some 1712707200000
   \<and> map_of (checkContractStatus exampleEnv noon [(''end_date'', JStr ''2024-04-10'')]) ''status''
       = Some (JStr ''expiring'')
   \<and> daysRemaining exampleEnv noon (Some (JStr ''next month'')) = None
   \<and> map_of (checkContractStatus exampleEnv noon [(''end_date'', JStr ''next month'')]) ''status''
       = Some (JStr ''active'')"
  by (simp add: utcDay_def noon_def msPerDay_def exampleEnv_def deriveStatus_def
      daysRemaining_def)

section \<open>Properties of the contract routes\<close>

text \<open>
  Claim C5. A creation request in which one of \<^verbatim>\<open>title\<close>, \<^verbatim>\<open>company\<close>,
  \<^verbatim>\<open>client_name\<close>, \<^verbatim>\<open>start_date\<close>, \<^verbatim>\<open>end_date\<close> is absent or the empty string
  is answered with status 400 and the error \<^verbatim>\<open>Missing required fields\<close>, and the
  persisted state is the one before the request.
\<close>

theorem missing_required_field_rejected:
  assumes "f \<in> {''title'', ''company'', ''client_name'', ''start_date'', ''end_date''}"
    and "map_of body f = None \<or> map_of body f = Some (JStr [])"
  shows "contracts_post E body st =
           (Response 400 [(''error'', JStr ''Missing required fields'')], st)"
proof -
  have "\<not> truthy (map_of body f)" using assms(2) by auto
  then show ?thesis using assms(1) by (auto simp add: contracts_post_def)
qed

text \<open>The theorem at a body that has no \<^verbatim>\<open>end_date\<close>, over a store of two contracts.\<close>

theorem missing_required_field_rejected_witness:
  "contracts_post exampleEnv
     [(''title'', JStr ''Quality Assurance''), (''company'', JStr ''VVRN Technologies''),
      (''client_name'', JStr ''John rohan''), (''start_date'', JStr ''2024-03-05'')] exampleState
   = (Response 400 [(''error'', JStr ''Missing required fields'')], exampleState)"
  by (rule missing_required_field_rejected [where f = "''end_date''"]) simp_all



section \<open>Creating, fetching and updating a contract\<close>















section \<open>Properties of search\<close>









section \<open>Properties of the alerts\<close>







section \<open>Properties of the chat routes\<close>

text \<open>
  Claim C10. When the inference call fails, because the service cannot be reached or
  because it answers with a non-success status, the chat route answers with status 500
  and the hint that Ollama must be started, and the persisted state, the chat history
  in it, is the one before the request.
\<close>

theorem chat_failure_leaves_store:
  assumes "ollama E (contractSummary E (readContracts E st)) (map_of body ''message'')
             = FetchFailed
         \<or> ollama E (contractSummary E (readContracts E st)) (map_of body ''message'')
             = NotOk"
  shows "\<exists>details. chat_post E body st =
           (Response 500
              [(''error'', JStr ''Error communicating with Ollama. Make sure Ollama is running with: ollama serve''),
               (''details'', JStr details)], st)"
  using assms by (auto simp add: chat_post_def chatError_def)

text \<open>The theorem at a request made while the service is not running.\<close>

theorem chat_failure_leaves_store_witness:
  "\<exists>details.
     chat_post offlineEnv
       [(''message'', JStr ''What is my salary?''), (''chat_id'', JStr ''s1'')] exampleState =
       (Response 500
          [(''error'', JStr ''Error communicating with Ollama. Make sure Ollama is running with: ollama serve''),
           (''details'', JStr details)], exampleState)"
  by (rule chat_failure_leaves_store) (simp add: offlineEnv_def exampleEnv_def)

section \<open>The stored status on the search and chat routes\<close>

text \<open>
  The listing and the single fetch derive the status again from the end date and the
  clock before they answer.
\<close>

lemma contracts_get_recomputes:
  "contracts_get E st =
     Response 200
       [(''contracts'',
         JArr (map JObj
           (map (\<lambda>(i, c). AList.update ''status''
                              (JStr (deriveStatus E (clock E i) (map_of c ''end_date''))) c)
                (enumerate 0 (readContracts E st)))))]"
  by (simp add: contracts_get_def checkContractStatus_def)

lemma contract_get_recomputes:
  "contract_get E pid st = Response 200 [(''contract'', JObj c)] \<Longrightarrow>
     map_of c ''status'' = Some (JStr (deriveStatus E (clock E 0) (map_of c ''end_date'')))"
  by (auto simp add: contract_get_def other_keys split: option.splits)

lemma ex_status:
  "deriveStatus exampleEnv 1710072000000 (Some (JStr ''2024-03-09'')) = ''expired''"
  by (simp add: deriveStatus_def daysRemaining_def exampleEnv_def msPerDay_def)

text \<open>
  Claim C2, at a failing input. Contract 1 of the example store ended on 9 March 2024
  and is stored with the status \<^verbatim>\<open>active\<close> it had when it was written. On 10 March
  the single fetch returns it as \<^verbatim>\<open>expired\<close>; a search for \<^verbatim>\<open>expired\<close> does not
  find it, a search for \<^verbatim>\<open>active\<close> returns it with the stored status, and the
  chat briefing describes it as \<^verbatim>\<open>active\<close>: the search route and the chat route
  read the stored status and do not derive it again.
\<close>

theorem search_and_briefing_use_stored_status:
  "contract_get exampleEnv (Some 1) exampleState =
     Response 200 [(''contract'', JObj (AList.update ''status'' (JStr ''expired'') qaContract))]
   \<and> map_of qaContract ''status'' = Some (JStr ''active'')
   \<and> search_post exampleEnv [(''query'', JStr ''expired'')] exampleState =
       Response 200 [(''results'', JArr []), (''count'', JNum 0)]
   \<and> search_post exampleEnv [(''query'', JStr ''active'')] exampleState =
       Response 200
         [(''results'', JArr [JObj qaContract, JObj devContract]), (''count'', JNum 2)]
   \<and> contractBlock exampleEnv qaContract =
       ''Contract ID: 1'' @ nl
       @ ''  - Title/Position: Quality Assurance'' @ nl
       @ ''  - Company: VVRN Technologies'' @ nl
       @ ''  - Client Name: John rohan'' @ nl
       @ ''  - Contract Type: individual'' @ nl
       @ ''  - Status: active'' @ nl
       @ ''  - Start Date: 2023-03-05'' @ nl
       @ ''  - End Date: 2024-03-09'' @ nl
       @ ''  - Salary: '' @ [CHR 0xE2, CHR 0x82, CHR 0xB9] @ ''5,00,000'' @ nl
       @ nl"
proof -
  have r: "read_ok exampleEnv" "clock exampleEnv = (\<lambda>k. 1710072000000)"
    by (simp_all add: exampleEnv_def)
  have st: "contracts_file exampleState = [qaContract, devContract]"
    by (simp add: exampleState_def)
  have e: "map_of qaContract ''end_date'' = Some (JStr ''2024-03-09'')"
    "map_of qaContract ''id'' = Some (JNum 1)"
    "map_of qaContract ''status'' = Some (JStr ''active'')"
    by (simp_all add: qaContract_def)
  have g: "contract_get exampleEnv (Some 1) exampleState =
     Response 200 [(''contract'', JObj (AList.update ''status'' (JStr ''expired'') qaContract))]"
    by (simp add: contract_get_def readContracts_def r st e checkContractStatus_def ex_status)
  have m1: "matches (toLowerCase ''expired'') qaContract = Inr False"
    "matches (toLowerCase ''expired'') devContract = Inr False"
    by (simp_all add: matches_def fieldIncludes_def qaContract_def devContract_def
        toLowerCase_def toLowerChar_def)
  have m2: "matches (toLowerCase ''active'') qaContract = Inr True"
    "matches (toLowerCase ''active'') devContract = Inr True"
    by (simp_all add: matches_def fieldIncludes_def qaContract_def devContract_def
        toLowerCase_def toLowerChar_def)
  have s1: "search_post exampleEnv [(''query'', JStr ''expired'')] exampleState =
       Response 200 [(''results'', JArr []), (''count'', JNum 0)]"
    by (simp add: search_post_def readContracts_def r st m1)
  have s2: "search_post exampleEnv [(''query'', JStr ''active'')] exampleState =
       Response 200
         [(''results'', JArr [JObj qaContract, JObj devContract]), (''count'', JNum 2)]"
    by (simp add: search_post_def readContracts_def r st m2)
  have b: "contractBlock exampleEnv qaContract =
       ''Contract ID: 1'' @ nl
       @ ''  - Title/Position: Quality Assurance'' @ nl
       @ ''  - Company: VVRN Technologies'' @ nl
       @ ''  - Client Name: John rohan'' @ nl
       @ ''  - Contract Type: individual'' @ nl
       @ ''  - Status: active'' @ nl
       @ ''  - Start Date: 2023-03-05'' @ nl
       @ ''  - End Date: 2024-03-09'' @ nl
       @ ''  - Salary: '' @ [CHR 0xE2, CHR 0x82, CHR 0xB9] @ ''5,00,000'' @ nl
       @ nl"
    by (simp add: contractBlock_def qaContract_def exampleEnv_def formatINR_def)
  show ?thesis
    using g e(3) s1 s2 b by (intro conjI)
qed

section \<open>Sessions of the chat history\<close>

lemma getProp_update_same: "getProp (AList.update k v ob) k = Own v"
  by (simp add: getProp_def update_conv')

text \<open>
  For a session identifier that is neither a key of the stored history nor the name
  of a property every object inherits, two appends followed by a read give exactly
  the two exchanges, in the order of the appends, with the user and bot values as
  they were given; and a read of such an identifier alone is answered with 404.
\<close>

lemma append_two_then_read:
  assumes "read_ok E1" "write_ok E1" "read_ok E2" "write_ok E2" "read_ok E3"
    and "sid \<noteq> []"
    and "getProp (chat_file st) sid = Undefined"
  shows "history_get E3 sid
           (snd (appendExchange E2 (Some (JStr sid)) (Some user2) (Some bot2)
              (snd (appendExchange E1 (Some (JStr sid)) (Some user1) (Some bot1) st)))) =
         Response 200
           [(''chat_id'', JStr sid),
            (''messages'',
             JArr [JObj [(''timestamp'', JStr (iso_string E1 (clock E1 0))),
                         (''user'', user1), (''bot'', bot1)],
                   JObj [(''timestamp'', JStr (iso_string E2 (clock E2 0))),
                         (''user'', user2), (''bot'', bot2)]])]"
proof -
  let ?x1 = "JObj [(''timestamp'', JStr (iso_string E1 (clock E1 0))),
                   (''user'', user1), (''bot'', bot1)]"
  let ?x2 = "JObj [(''timestamp'', JStr (iso_string E2 (clock E2 0))),
                   (''user'', user2), (''bot'', bot2)]"
  let ?st1 = "st\<lparr>chat_file := AList.update sid (JArr [?x1]) (chat_file st)\<rparr>"
  let ?st2 = "st\<lparr>chat_file := AList.update sid (JArr [?x1, ?x2]) (chat_file st)\<rparr>"
  have a1: "snd (appendExchange E1 (Some (JStr sid)) (Some user1) (Some bot1) st) = ?st1"
    using assms(1,2,6,7)
    by (simp add: appendExchange_def readChat_def writeChat_def Let_def getProp_update_same)
  have a2: "snd (appendExchange E2 (Some (JStr sid)) (Some user2) (Some bot2) ?st1) = ?st2"
    using assms(3,4,6)
    by (simp add: appendExchange_def readChat_def writeChat_def Let_def getProp_update_same)
  show ?thesis
    unfolding a1 a2 using assms(5)
    by (simp add: history_get_def readChat_def getProp_update_same)
qed

lemma history_unknown_session:
  "read_ok E \<Longrightarrow> getProp (chat_file st) sid = Undefined \<Longrightarrow>
     history_get E sid st = Response 404 [(''error'', JStr ''Chat history not found'')]"
  by (simp add: history_get_def readChat_def)

text \<open>
  Claim C9, at a failing input. The session identifier \<^verbatim>\<open>constructor\<close> is not a key
  of the stored history, yet \<^verbatim>\<open>chatHistory['constructor']\<close> is the function every
  object inherits. The chat route does not create the session, fails on \<^verbatim>\<open>push\<close>
  after the inference service has replied, answers with status 500 and appends
  nothing; the history route answers the unknown session with status 200 and no
  messages instead of 404.
\<close>

theorem inherited_key_is_no_session:
  "getProp (chat_file exampleState) ''constructor'' = ProtoFunction
   \<and> chat_post exampleEnv
        [(''message'', JStr ''How many contracts do I have?''),
         (''chat_id'', JStr ''constructor'')]
        exampleState =
       (Response 500
          [(''error'', JStr ''Error communicating with Ollama. Make sure Ollama is running with: ollama serve''),
           (''details'', JStr ''chatHistory[currentChatId].push is not a function'')],
        exampleState)
   \<and> history_get exampleEnv ''constructor'' exampleState =
       Response 200 [(''chat_id'', JStr ''constructor'')]"
proof -
  have r: "read_ok exampleEnv" by (simp add: exampleEnv_def)
  have c: "chat_file exampleState = []" by (simp add: exampleState_def)
  have p: "getProp [] ''constructor'' = ProtoFunction"
    by (simp add: getProp_def objectPrototypeFunctions_def)
  have o: "ollama exampleEnv = (\<lambda>summary message.
           Reply (JObj [(''message'',
                         JObj [(''role'', JStr ''assistant''),
                               (''content'', JStr ''You have 1 contract.'')])]))"
    by (simp add: exampleEnv_def)
  have m: "messageContent (JObj [(''message'',
                         JObj [(''role'', JStr ''assistant''),
                               (''content'', JStr ''You have 1 contract.'')])])
           = Inr (Some (JStr ''You have 1 contract.''))"
    by (simp add: messageContent_def)
  have em: "errorMessage exampleEnv TypeError
              = ''chatHistory[currentChatId].push is not a function''"
    by (simp add: errorMessage_def exampleEnv_def)
  have a: "appendExchange exampleEnv (Some (JStr ''constructor''))
             (Some (JStr ''How many contracts do I have?''))
             (Some (JStr ''You have 1 contract.'')) exampleState
           = (chatError exampleEnv TypeError, exampleState)"
    by (simp add: appendExchange_def readChat_def r c p Let_def)
  have cp: "chat_post exampleEnv
        [(''message'', JStr ''How many contracts do I have?''),
         (''chat_id'', JStr ''constructor'')]
        exampleState = (chatError exampleEnv TypeError, exampleState)"
    by (simp add: chat_post_def o m a)
  have h: "history_get exampleEnv ''constructor'' exampleState =
       Response 200 [(''chat_id'', JStr ''constructor'')]"
    by (simp add: history_get_def readChat_def r c p)
  show ?thesis
    using p h by (simp add: cp chatError_def em c)
qed

end
